theory Spec2Isabelle
  imports Complex_Main
begin

section \<open>Fraud alerts pipeline (src/ml/fraudAlertsPipeline.py)\<close>

text \<open>
  Conventions of the embedding.
  \<^item> Python floats and JSON numbers are exact reals; every division of the source is
    written with its zero guard or its ZeroDivisionError.
  \<^item> A reading of \<open>datetime.now()\<close> is an argument \<open>now\<close>: microseconds since a fixed
    epoch, the resolution of a Python datetime. The handling of one message reads the
    clock several times (deduplication, alert id, alert timestamp); all these readings
    have the one value \<open>now\<close> given for the message.
  \<^item> An exception is a value \<open>Inl e\<close>; a method that mutates \<open>self\<close> and may raise
    returns the mutated object together with the outcome, because the mutation made
    before the raise stays.
\<close>

subsection \<open>Enumerations\<close>

datatype AlertSeverity = CRITICAL | HIGH | MEDIUM | LOW | INFO

datatype FraudType =
    PRICE_MANIPULATION | FLASH_LOAN_ATTACK | ORACLE_SPOOFING | COORDINATED_ATTACK
  | VOLUME_ANOMALY | LATENCY_SPIKE | SOURCE_DEGRADATION | REPLAY_ATTACK
  | SANDWICH_ATTACK | MEV_EXTRACTION

fun AlertSeverity_value :: "AlertSeverity \<Rightarrow> string" where
  "AlertSeverity_value CRITICAL = ''CRITICAL''"
| "AlertSeverity_value HIGH = ''HIGH''"
| "AlertSeverity_value MEDIUM = ''MEDIUM''"
| "AlertSeverity_value LOW = ''LOW''"
| "AlertSeverity_value INFO = ''INFO''"

fun FraudType_value :: "FraudType \<Rightarrow> string" where
  "FraudType_value PRICE_MANIPULATION = ''PRICE_MANIPULATION''"
| "FraudType_value FLASH_LOAN_ATTACK = ''FLASH_LOAN_ATTACK''"
| "FraudType_value ORACLE_SPOOFING = ''ORACLE_SPOOFING''"
| "FraudType_value COORDINATED_ATTACK = ''COORDINATED_ATTACK''"
| "FraudType_value VOLUME_ANOMALY = ''VOLUME_ANOMALY''"
| "FraudType_value LATENCY_SPIKE = ''LATENCY_SPIKE''"
| "FraudType_value SOURCE_DEGRADATION = ''SOURCE_DEGRADATION''"
| "FraudType_value REPLAY_ATTACK = ''REPLAY_ATTACK''"
| "FraudType_value SANDWICH_ATTACK = ''SANDWICH_ATTACK''"
| "FraudType_value MEV_EXTRACTION = ''MEV_EXTRACTION''"

datatype py_error =
    ZeroDivisionError | JSONDecodeError | ConnectionError | TimeoutError | AttributeError

type_synonym time = int

subsection \<open>AlertDeduplicator\<close>

record AlertDeduplicator =
  cooldown_minutes :: int
  recent_alerts :: "string \<rightharpoonup> time"
  alert_counts :: "string \<rightharpoonup> int"

definition AlertDeduplicator_init :: "int \<Rightarrow> AlertDeduplicator" where
  "AlertDeduplicator_init cooldown =
     \<lparr>cooldown_minutes = cooldown, recent_alerts = Map.empty, alert_counts = Map.empty\<rparr>"

text \<open>The key \<open>f"{feed_name}:{fraud_type}"\<close>.\<close>

definition dedup_key :: "string \<Rightarrow> string \<Rightarrow> string" where
  "dedup_key feed_name fraud_type = feed_name @ '':'' @ fraud_type"

text \<open>\<open>(now - last).total_seconds() / 60\<close>.\<close>

definition elapsed_minutes :: "time \<Rightarrow> time \<Rightarrow> real" where
  "elapsed_minutes now prev = real_of_int (now - prev) / 1000000 / 60"

definition increment_count :: "AlertDeduplicator \<Rightarrow> string \<Rightarrow> AlertDeduplicator" where
  "increment_count d key =
     d\<lparr>alert_counts := (alert_counts d)
          (key \<mapsto> (case alert_counts d key of None \<Rightarrow> 0 | Some c \<Rightarrow> c) + 1)\<rparr>"

definition should_alert ::
  "AlertDeduplicator \<Rightarrow> string \<Rightarrow> string \<Rightarrow> AlertSeverity \<Rightarrow> time
     \<Rightarrow> bool \<times> AlertDeduplicator" where
  "should_alert d feed_name fraud_type severity now =
     (let key = dedup_key feed_name fraud_type in
      if severity = CRITICAL then
        (True, d\<lparr>recent_alerts := (recent_alerts d)(key \<mapsto> now)\<rparr>)
      else if (case recent_alerts d key of
                 None \<Rightarrow> False
               | Some prev \<Rightarrow> elapsed_minutes now prev < real_of_int (cooldown_minutes d))
      then (False, d)
      else (True, increment_count (d\<lparr>recent_alerts := (recent_alerts d)(key \<mapsto> now)\<rparr>) key))"

definition get_alert_statistics :: "AlertDeduplicator \<Rightarrow> (string \<rightharpoonup> int)" where
  "get_alert_statistics d = alert_counts d"

text \<open>
  \<open>cleanup_old_entries\<close>: keeps the entries younger than \<open>max_age_hours\<close>.
\<close>

definition cleanup_old_entries :: "AlertDeduplicator \<Rightarrow> int \<Rightarrow> time \<Rightarrow> AlertDeduplicator" where
  "cleanup_old_entries d max_age_hours now =
     (let cutoff = now - max_age_hours * 3600 * 1000000 in
      d\<lparr>recent_alerts :=
          (\<lambda>k. case recent_alerts d k of
                  None \<Rightarrow> None
                | Some v \<Rightarrow> if v > cutoff then Some v else None)\<rparr>)"

text \<open>
  A detection at \<open>now'\<close> is within the cooldown of an alert at \<open>now\<close> when the test of
  \<open>should_alert\<close>, \<open>elapsed < cooldown_minutes\<close>, holds of the two instants.
\<close>

definition within_cooldown :: "AlertDeduplicator \<Rightarrow> time \<Rightarrow> time \<Rightarrow> bool" where
  "within_cooldown d now now' \<longleftrightarrow>
     elapsed_minutes now' now < real_of_int (cooldown_minutes d)"

subsection \<open>Feed events and detections\<close>

text \<open>
  The JSON object of a bus message, a Python dict read with \<open>data.get(key, default)\<close>:
  an absent key is \<open>None\<close>. The first six keys are those of a price update, the others
  those of an externally classified anomaly.
\<close>

datatype ev_value = EvNum real | EvStr string | EvList "real list"

type_synonym evidence = "(string \<times> ev_value) list"

record feed_data =
  ev_feed_name :: "string option"
  ev_price :: "real option"
  ev_volume :: "real option"
  ev_source_count :: "int option"
  ev_latency_ms :: "real option"
  ev_timestamp :: "time option"
  ev_confidence :: "real option"
  ev_score :: "real option"
  ev_description :: "string option"
  ev_evidence :: "evidence option"
  ev_potential_loss :: "real option"

definition dict_get :: "'a option \<Rightarrow> 'a \<Rightarrow> 'a" where
  "dict_get v dflt = (case v of None \<Rightarrow> dflt | Some x \<Rightarrow> x)"

text \<open>
  A description is an f-string of the source: the template and the number it formats.
\<close>

datatype description =
    Desc string
  | Desc_price_change real
  | Desc_volume_spike real
  | Desc_latency real
  | Desc_sources int
  | Desc_ml real

record Detection =
  det_fraud_type :: FraudType
  det_severity :: AlertSeverity
  det_confidence :: real
  det_score :: real
  det_description :: description
  det_evidence :: evidence
  det_potential_loss :: real

subsection \<open>FraudDetector\<close>

text \<open>
  The scorer loaded from \<open>model_path\<close> is an external collaborator. Its feature
  extractor and its model are the functions the detector calls on them; each may raise,
  and a model may lack \<open>score_samples\<close>.
\<close>

record ml_window =
  df_timestamp :: "time list"
  df_price :: "real list"
  df_volume :: "real list"
  df_source_count :: "int list"
  df_latency_ms :: "real list"

record feature_extractor =
  extract_all_features :: "ml_window \<Rightarrow> py_error + real list list"
  scale_features :: "real list list \<Rightarrow> py_error + real list list"

record anomaly_model =
  model_type :: string
  score_samples :: "(real list list \<Rightarrow> py_error + real) option"

record FraudDetector =
  model :: "anomaly_model option"
  extractor :: "feature_extractor option"
  price_buffer :: "string \<rightharpoonup> real list"
  volume_buffer :: "string \<rightharpoonup> real list"
  timestamp_buffer :: "string \<rightharpoonup> time list"

text \<open>The dict \<open>self.thresholds\<close>, assigned once in \<open>__init__\<close>.\<close>

definition thresholds_price_change :: real where "thresholds_price_change = 0.15"
definition thresholds_volume_spike :: real where "thresholds_volume_spike = 5.0"
definition thresholds_latency_spike :: real where "thresholds_latency_spike = 1000"
definition thresholds_source_minimum :: int where "thresholds_source_minimum = 3"
definition thresholds_anomaly_score :: real where "thresholds_anomaly_score = 0.85"

definition FraudDetector_init ::
  "(anomaly_model option \<times> feature_extractor option) option \<Rightarrow> FraudDetector" where
  "FraudDetector_init saved =
     \<lparr>model = (case saved of None \<Rightarrow> None | Some (m, fe) \<Rightarrow> m),
      extractor = (case saved of None \<Rightarrow> None | Some (m, fe) \<Rightarrow> fe),
      price_buffer = Map.empty, volume_buffer = Map.empty, timestamp_buffer = Map.empty\<rparr>"

text \<open>\<open>deque(maxlen=100).append\<close>: the oldest entry leaves when the deque is full.\<close>

definition deque_append :: "'a list \<Rightarrow> 'a \<Rightarrow> 'a list" where
  "deque_append q x = (let q' = q @ [x] in drop (length q' - 100) q')"

text \<open>The slice \<open>xs[-n:]\<close> for positive \<open>n\<close>, and \<open>list(self.buffer[feed_name])\<close>.\<close>

definition last_n :: "nat \<Rightarrow> 'a list \<Rightarrow> 'a list" where
  "last_n n xs = drop (length xs - n) xs"

definition buffer_list :: "(string \<rightharpoonup> 'a list) \<Rightarrow> string \<Rightarrow> 'a list" where
  "buffer_list buf feed = (case buf feed of None \<Rightarrow> [] | Some q \<Rightarrow> q)"

definition estimate_loss :: "real \<Rightarrow> real \<Rightarrow> real" where
  "estimate_loss change vol = change * vol * 0.1"

definition is_flash_loan_pattern :: "FraudDetector \<Rightarrow> string \<Rightarrow> bool" where
  "is_flash_loan_pattern fd feed =
     (let prices = buffer_list (price_buffer fd) feed in
      if length prices < 4 then False
      else
        let recent = last_n 4 prices;
            change1 = (if recent ! 0 \<noteq> 0
                       then \<bar>recent ! 1 - recent ! 0\<bar> / recent ! 0 else 0);
            change2 = (if recent ! 2 \<noteq> 0
                       then \<bar>recent ! 3 - recent ! 2\<bar> / recent ! 2 else 0)
        in change1 > 0.1 \<and> change2 > 0.1)"

definition detect_price_manipulation ::
  "FraudDetector \<Rightarrow> string \<Rightarrow> feed_data \<Rightarrow> Detection list" where
  "detect_price_manipulation fd feed data =
     (let prices = buffer_list (price_buffer fd) feed in
      if length prices < 2 then []
      else
        let current_price = prices ! (length prices - 1);
            previous_price = prices ! (length prices - 2)
        in
        if previous_price = 0 then []
        else
          let change = \<bar>current_price - previous_price\<bar> / previous_price in
          if change > thresholds_price_change then
            [\<lparr>det_fraud_type = PRICE_MANIPULATION,
              det_severity = (if change > 0.5 then CRITICAL else HIGH),
              det_confidence = min (change / thresholds_price_change) 1.0,
              det_score = change,
              det_description = Desc_price_change change,
              det_evidence = [(''previous_price'', EvNum previous_price),
                              (''current_price'', EvNum current_price),
                              (''change_percentage'', EvNum (change * 100))],
              det_potential_loss = estimate_loss change (dict_get (ev_volume data) 0)\<rparr>]
            @ (if is_flash_loan_pattern fd feed then
                 [\<lparr>det_fraud_type = FLASH_LOAN_ATTACK,
                   det_severity = CRITICAL,
                   det_confidence = 0.85,
                   det_score = 0.9,
                   det_description = Desc ''Potential flash loan attack detected'',
                   det_evidence = [(''pattern'', EvStr ''rapid_reversal''),
                                   (''timeframe'', EvStr ''< 1 block'')],
                   det_potential_loss =
                     estimate_loss change (dict_get (ev_volume data) 0) * 2\<rparr>]
               else [])
          else [])"

definition detect_volume_anomaly ::
  "FraudDetector \<Rightarrow> string \<Rightarrow> feed_data \<Rightarrow> Detection list" where
  "detect_volume_anomaly fd feed data =
     (let volumes = buffer_list (volume_buffer fd) feed in
      if length volumes < 10 then []
      else
        let avg_volume = sum_list (butlast volumes) / real (length (butlast volumes));
            current_volume = volumes ! (length volumes - 1)
        in
        if avg_volume = 0 then []
        else
          let spike_ratio = current_volume / avg_volume in
          if spike_ratio > thresholds_volume_spike then
            [\<lparr>det_fraud_type = VOLUME_ANOMALY,
              det_severity = (if spike_ratio > 10 then HIGH else MEDIUM),
              det_confidence = min (spike_ratio / (thresholds_volume_spike * 2)) 1.0,
              det_score = spike_ratio / 10,
              det_description = Desc_volume_spike spike_ratio,
              det_evidence = [(''average_volume'', EvNum avg_volume),
                              (''current_volume'', EvNum current_volume),
                              (''spike_ratio'', EvNum spike_ratio)],
              det_potential_loss = current_volume * 0.01\<rparr>]
          else [])"

definition detect_latency_spike ::
  "FraudDetector \<Rightarrow> string \<Rightarrow> feed_data \<Rightarrow> Detection list" where
  "detect_latency_spike fd feed data =
     (let latency = dict_get (ev_latency_ms data) 0 in
      if latency > thresholds_latency_spike then
        [\<lparr>det_fraud_type = LATENCY_SPIKE,
          det_severity = (if latency > 2000 then HIGH else MEDIUM),
          det_confidence = 0.9,
          det_score = latency / thresholds_latency_spike,
          det_description = Desc_latency latency,
          det_evidence = [(''latency_ms'', EvNum latency),
                          (''threshold'', EvNum thresholds_latency_spike)],
          det_potential_loss = 0\<rparr>]
      else [])"

definition detect_source_degradation ::
  "FraudDetector \<Rightarrow> string \<Rightarrow> feed_data \<Rightarrow> Detection list" where
  "detect_source_degradation fd feed data =
     (let source_count = dict_get (ev_source_count data) 0 in
      if source_count < thresholds_source_minimum then
        [\<lparr>det_fraud_type = SOURCE_DEGRADATION,
          det_severity = (if source_count \<le> 1 then CRITICAL else HIGH),
          det_confidence = 0.95,
          det_score = 1 - real_of_int source_count / real_of_int thresholds_source_minimum,
          det_description = Desc_sources source_count,
          det_evidence = [(''source_count'', EvNum (real_of_int source_count)),
                          (''minimum_required'',
                             EvNum (real_of_int thresholds_source_minimum))],
          det_potential_loss =
            10000 * real_of_int (thresholds_source_minimum - source_count)\<rparr>]
      else [])"

text \<open>
  \<open>_detect_sandwich_attack\<close> divides by \<open>recent[0]\<close> without a zero test. Python
  evaluates the right operand of \<open>and\<close> only when the left one holds, so the division
  raises exactly when \<open>recent[2] > 0\<close> and \<open>recent[0] = 0\<close>.
\<close>

definition detect_sandwich_attack ::
  "FraudDetector \<Rightarrow> string \<Rightarrow> feed_data \<Rightarrow> py_error + Detection list" where
  "detect_sandwich_attack fd feed data =
     (let prices = buffer_list (price_buffer fd) feed in
      if length prices < 3 then Inr []
      else if length prices \<ge> 5 then
        let recent = last_n 5 prices in
        if recent ! 2 > recent ! 0 * 1.02 then
          if recent ! 0 = 0 then Inl ZeroDivisionError
          else if \<bar>recent ! 4 - recent ! 0\<bar> / recent ! 0 < 0.01 then
            Inr [\<lparr>det_fraud_type = SANDWICH_ATTACK,
                  det_severity = HIGH,
                  det_confidence = 0.75,
                  det_score = 0.8,
                  det_description = Desc ''Potential sandwich attack pattern detected'',
                  det_evidence = [(''price_pattern'', EvList recent),
                                  (''peak_deviation'',
                                     EvNum ((recent ! 2 - recent ! 0) / recent ! 0))],
                  det_potential_loss = recent ! 0 * 0.02\<rparr>]
          else Inr []
        else Inr []
      else Inr [])"

text \<open>
  \<open>_detect_with_ml\<close>: the whole body after the two attribute tests is inside
  \<open>try ... except Exception\<close>, so a raise of the extractor or of the model ends with
  the empty list.
\<close>

definition ml_score ::
  "anomaly_model \<Rightarrow> feature_extractor \<Rightarrow> ml_window \<Rightarrow> py_error + real option" where
  "ml_score m fe df =
     (case extract_all_features fe df of
        Inl e \<Rightarrow> Inl e
      | Inr features \<Rightarrow>
          if length features = 0 then Inr None
          else
            (case scale_features fe features of
               Inl e \<Rightarrow> Inl e
             | Inr scaled \<Rightarrow>
                 (case score_samples m of
                    Some f \<Rightarrow>
                      (case f (last_n 1 scaled) of
                         Inl e \<Rightarrow> Inl e
                       | Inr v \<Rightarrow> Inr (Some (- v)))
                  | None \<Rightarrow> Inr (Some 0.5))))"

definition detect_with_ml ::
  "FraudDetector \<Rightarrow> string \<Rightarrow> feed_data \<Rightarrow> Detection list" where
  "detect_with_ml fd feed data =
     (case (model fd, extractor fd) of
        (Some m, Some fe) \<Rightarrow>
          (let prices = buffer_list (price_buffer fd) feed in
           if length prices < 50 then []
           else
             let df = \<lparr>df_timestamp = last_n 50 (buffer_list (timestamp_buffer fd) feed),
                       df_price = last_n 50 prices,
                       df_volume = last_n 50 (buffer_list (volume_buffer fd) feed),
                       df_source_count = replicate 50 (dict_get (ev_source_count data) 5),
                       df_latency_ms = replicate 50 (dict_get (ev_latency_ms data) 100)\<rparr>
             in
             (case ml_score m fe df of
                Inl e \<Rightarrow> []
              | Inr None \<Rightarrow> []
              | Inr (Some score) \<Rightarrow>
                  let normalized_score = min (max score 0) 1 in
                  if normalized_score > thresholds_anomaly_score then
                    [\<lparr>det_fraud_type = ORACLE_SPOOFING,
                      det_severity =
                        (if normalized_score > 0.95 then CRITICAL
                         else if normalized_score > 0.9 then HIGH else MEDIUM),
                      det_confidence = normalized_score,
                      det_score = normalized_score,
                      det_description = Desc_ml normalized_score,
                      det_evidence = [(''ml_score'', EvNum normalized_score),
                                      (''threshold'', EvNum thresholds_anomaly_score),
                                      (''model_type'', EvStr (model_type m))],
                      det_potential_loss = normalized_score * 50000\<rparr>]
                  else []))
      | _ \<Rightarrow> [])"

text \<open>
  \<open>detect_fraud\<close> appends the event to the three buffers of its feed and then calls
  the detectors one after the other, with no \<open>try\<close> around any call: an exception of
  a detector leaves \<open>detect_fraud\<close> with the local list \<open>detections\<close> lost, and the
  buffers stay as appended. The three buffers of a feed are created together, so a feed
  with a price buffer has the other two; \<open>buffer_list\<close> reads a missing one as empty.
\<close>

definition append_buffers :: "FraudDetector \<Rightarrow> feed_data \<Rightarrow> time \<Rightarrow> FraudDetector" where
  "append_buffers fd data now =
     (let feed = dict_get (ev_feed_name data) ''UNKNOWN'';
          fd1 = (if price_buffer fd feed = None
                 then fd\<lparr>price_buffer := (price_buffer fd)(feed \<mapsto> []),
                         volume_buffer := (volume_buffer fd)(feed \<mapsto> []),
                         timestamp_buffer := (timestamp_buffer fd)(feed \<mapsto> [])\<rparr>
                 else fd)
      in fd1\<lparr>price_buffer := (price_buffer fd1)
                 (feed \<mapsto> deque_append (buffer_list (price_buffer fd1) feed)
                            (dict_get (ev_price data) 0)),
              volume_buffer := (volume_buffer fd1)
                 (feed \<mapsto> deque_append (buffer_list (volume_buffer fd1) feed)
                            (dict_get (ev_volume data) 0)),
              timestamp_buffer := (timestamp_buffer fd1)
                 (feed \<mapsto> deque_append (buffer_list (timestamp_buffer fd1) feed)
                            (dict_get (ev_timestamp data) now))\<rparr>)"

definition run_detectors ::
  "FraudDetector \<Rightarrow> string \<Rightarrow> feed_data \<Rightarrow> py_error + Detection list" where
  "run_detectors fd feed data =
     (let d1 = detect_price_manipulation fd feed data;
          d2 = d1 @ detect_volume_anomaly fd feed data;
          d3 = d2 @ detect_latency_spike fd feed data;
          d4 = d3 @ detect_source_degradation fd feed data
      in case detect_sandwich_attack fd feed data of
           Inl e \<Rightarrow> Inl e
         | Inr sw \<Rightarrow>
             Inr (d4 @ sw @ (if model fd \<noteq> None then detect_with_ml fd feed data else [])))"

definition detect_fraud ::
  "FraudDetector \<Rightarrow> feed_data \<Rightarrow> time \<Rightarrow> (py_error + Detection list) \<times> FraudDetector" where
  "detect_fraud fd data now =
     (let feed = dict_get (ev_feed_name data) ''UNKNOWN'';
          fd' = append_buffers fd data now
      in (run_detectors fd' feed data, fd'))"

subsection \<open>Alerts, configuration and the outside world\<close>

record FraudAlert =
  alert_id :: string
  alert_timestamp :: string
  alert_feed_name :: string
  alert_fraud_type :: string
  alert_severity :: string
  alert_confidence :: real
  alert_anomaly_score :: real
  alert_description :: description
  alert_evidence :: evidence
  alert_recommended_actions :: "string list"
  alert_affected_contracts :: "string list"
  alert_potential_loss_usd :: real
  alert_is_acknowledged :: bool
  alert_acknowledged_by :: "string option"
  alert_resolution_status :: string
  alert_tags :: "string list"

record PipelineConfig =
  redis_url :: string
  webhook_url :: "string option"
  telegram_bot_token :: "string option"
  telegram_chat_id :: "string option"
  slack_webhook_url :: "string option"
  alert_cooldown_minutes :: int
  enable_auto_circuit_break :: bool
  circuit_break_threshold :: real
  retention_days :: int

definition PipelineConfig_default :: PipelineConfig where
  "PipelineConfig_default =
     \<lparr>redis_url = ''redis://localhost:6379'', webhook_url = None,
      telegram_bot_token = None, telegram_chat_id = None, slack_webhook_url = None,
      alert_cooldown_minutes = 5, enable_auto_circuit_break = True,
      circuit_break_threshold = 0.95, retention_days = 30\<rparr>"

text \<open>
  What the process cannot compute by itself, fixed for the handling of one message: the
  library functions \<open>hashlib.sha256(...).hexdigest()\<close> and \<open>datetime.isoformat()\<close>,
  and the exception, if any, that the Redis server answers a store or a publish with.
\<close>

record environment =
  sha256_hexdigest :: "string \<Rightarrow> string"
  isoformat :: "time \<Rightarrow> string"
  redis_store_error :: "py_error option"
  redis_publish_error :: "string \<Rightarrow> py_error option"

text \<open>
  The body of an HTTP POST, and the aiohttp session: from the URL and the body to the
  status code of the response, or to the exception raised (a timeout included).
\<close>

datatype http_body =
    Alert_json FraudAlert
  | Telegram_json "string option" FraudAlert
  | Slack_json FraudAlert time

type_synonym http_session = "string option \<Rightarrow> http_body \<Rightarrow> py_error + nat"

subsection \<open>AlertNotifier\<close>

record AlertNotifier =
  notifier_config :: PipelineConfig
  session :: "http_session option"

text \<open>Truth value of an \<open>Optional[str]\<close>: neither \<open>None\<close> nor empty.\<close>

definition truthy :: "string option \<Rightarrow> bool" where
  "truthy s = (case s of None \<Rightarrow> False | Some x \<Rightarrow> x \<noteq> [])"

text \<open>
  \<open>_send_webhook\<close>. With no session, \<open>self.session.post\<close> raises AttributeError
  inside the \<open>try\<close>.
\<close>

definition send_webhook :: "AlertNotifier \<Rightarrow> FraudAlert \<Rightarrow> bool" where
  "send_webhook n alert =
     (case session n of
        None \<Rightarrow> False
      | Some post \<Rightarrow>
          (case post (webhook_url (notifier_config n)) (Alert_json alert) of
             Inl e \<Rightarrow> False
           | Inr status \<Rightarrow> status = 200))"

definition send_telegram :: "AlertNotifier \<Rightarrow> FraudAlert \<Rightarrow> bool" where
  "send_telegram n alert =
     (case session n of
        None \<Rightarrow> False
      | Some post \<Rightarrow>
          (case post (Some (''https://api.telegram.org/bot''
                             @ dict_get (telegram_bot_token (notifier_config n)) ''None''
                             @ ''/sendMessage''))
                  (Telegram_json (telegram_chat_id (notifier_config n)) alert) of
             Inl e \<Rightarrow> False
           | Inr status \<Rightarrow> status = 200))"

definition send_slack :: "AlertNotifier \<Rightarrow> FraudAlert \<Rightarrow> time \<Rightarrow> bool" where
  "send_slack n alert now =
     (case session n of
        None \<Rightarrow> False
      | Some post \<Rightarrow>
          (case post (slack_webhook_url (notifier_config n)) (Slack_json alert now) of
             Inl e \<Rightarrow> False
           | Inr status \<Rightarrow> status = 200))"

definition publish_redis :: "environment \<Rightarrow> AlertNotifier \<Rightarrow> FraudAlert \<Rightarrow> bool" where
  "publish_redis env n alert =
     (case redis_publish_error env ''fraud:alerts'' of None \<Rightarrow> True | Some e \<Rightarrow> False)"

text \<open>The dict of results, in insertion order.\<close>

definition notify_all_channels ::
  "environment \<Rightarrow> AlertNotifier \<Rightarrow> FraudAlert \<Rightarrow> time \<Rightarrow> (string \<times> bool) list" where
  "notify_all_channels env n alert now =
     (if truthy (webhook_url (notifier_config n))
      then [(''webhook'', send_webhook n alert)] else [])
     @ (if truthy (telegram_bot_token (notifier_config n))
           \<and> truthy (telegram_chat_id (notifier_config n))
        then [(''telegram'', send_telegram n alert)] else [])
     @ (if truthy (slack_webhook_url (notifier_config n))
        then [(''slack'', send_slack n alert now)] else [])
     @ [(''redis'', publish_redis env n alert)]"

subsection \<open>FraudAlertsPipeline\<close>

text \<open>
  What the pipeline wrote to the outside: an alert stored in Redis, the result of
  \<open>notify_all_channels\<close> for an alert, an event published on a circuit breaker
  channel (channel, feed name, alert id).
\<close>

datatype io_output =
    Stored FraudAlert
  | Notified FraudAlert "(string \<times> bool) list"
  | Published string string "string option"

record FraudAlertsPipeline =
  config :: PipelineConfig
  detector :: FraudDetector
  notifier :: AlertNotifier
  deduplicator :: AlertDeduplicator
  alerts_generated :: "FraudAlert list"
  circuit_breaker_active :: "string set"
  outputs :: "io_output list"

definition FraudAlertsPipeline_init :: "PipelineConfig \<Rightarrow> FraudAlertsPipeline" where
  "FraudAlertsPipeline_init cfg =
     \<lparr>config = cfg,
      detector = FraudDetector_init None,
      notifier = \<lparr>notifier_config = cfg, session = None\<rparr>,
      deduplicator = AlertDeduplicator_init (alert_cooldown_minutes cfg),
      alerts_generated = [],
      circuit_breaker_active = {},
      outputs = []\<rparr>"

definition initialize :: "FraudAlertsPipeline \<Rightarrow> http_session \<Rightarrow> FraudAlertsPipeline" where
  "initialize p s = p\<lparr>notifier := (notifier p)\<lparr>session := Some s\<rparr>\<rparr>"

definition feed_name_of :: "feed_data \<Rightarrow> string" where
  "feed_name_of data = dict_get (ev_feed_name data) ''UNKNOWN''"

definition generate_alert_id :: "environment \<Rightarrow> string \<Rightarrow> string \<Rightarrow> time \<Rightarrow> string" where
  "generate_alert_id env feed fraud_type now =
     take 16 (sha256_hexdigest env (feed @ '':'' @ fraud_type @ '':'' @ isoformat env now))"

definition actions_table :: "FraudType \<Rightarrow> string list" where
  "actions_table ft =
     (if ft = PRICE_MANIPULATION then
        [''Halt oracle updates temporarily'', ''Cross-reference with other sources'',
         ''Review recent oracle submissions'', ''Check for coordinated attack patterns'']
      else if ft = FLASH_LOAN_ATTACK then
        [''CRITICAL: Pause affected contracts immediately'', ''Enable TWAP-based pricing'',
         ''Increase oracle heartbeat frequency'', ''Review transaction sequencing'']
      else if ft = ORACLE_SPOOFING then
        [''Verify oracle source authenticity'', ''Check ZK proof validity'',
         ''Slash suspicious oracles'', ''Enable stricter deviation checks'']
      else if ft = SOURCE_DEGRADATION then
        [''Increase minimum source threshold'', ''Activate backup oracles'',
         ''Monitor for oracle censorship'', ''Enable emergency mode'']
      else if ft = SANDWICH_ATTACK then
        [''Review MEV protection measures'', ''Implement private transaction pool'',
         ''Add slippage protection'', ''Monitor mempool activity'']
      else [''Monitor closely'', ''Investigate further''])"

definition get_recommended_actions :: "FraudType \<Rightarrow> AlertSeverity \<Rightarrow> string list" where
  "get_recommended_actions ft sev =
     (if sev = CRITICAL
      then ''EMERGENCY: Activate circuit breaker NOW'' # actions_table ft
      else actions_table ft)"

definition get_affected_contracts :: "environment \<Rightarrow> string \<Rightarrow> string list" where
  "get_affected_contracts env feed = [''0x'' @ take 40 (sha256_hexdigest env feed)]"

definition generate_tags :: "FraudType \<Rightarrow> AlertSeverity \<Rightarrow> string list" where
  "generate_tags ft sev =
     [FraudType_value ft, AlertSeverity_value sev]
     @ (if sev \<in> {CRITICAL, HIGH} then [''URGENT''] else [])
     @ (if ft \<in> {FLASH_LOAN_ATTACK, SANDWICH_ATTACK} then [''MEV_RELATED''] else [])"

definition create_alert ::
  "environment \<Rightarrow> time \<Rightarrow> string \<Rightarrow> FraudType \<Rightarrow> AlertSeverity \<Rightarrow> real \<Rightarrow> real
     \<Rightarrow> description \<Rightarrow> evidence \<Rightarrow> real \<Rightarrow> FraudAlert" where
  "create_alert env now feed ft sev conf sc descr evid potential_loss =
     \<lparr>alert_id = generate_alert_id env feed (FraudType_value ft) now,
      alert_timestamp = isoformat env now,
      alert_feed_name = feed,
      alert_fraud_type = FraudType_value ft,
      alert_severity = AlertSeverity_value sev,
      alert_confidence = conf,
      alert_anomaly_score = sc,
      alert_description = descr,
      alert_evidence = evid,
      alert_recommended_actions = get_recommended_actions ft sev,
      alert_affected_contracts = get_affected_contracts env feed,
      alert_potential_loss_usd = potential_loss,
      alert_is_acknowledged = False,
      alert_acknowledged_by = None,
      alert_resolution_status = ''OPEN'',
      alert_tags = generate_tags ft sev\<rparr>"

text \<open>\<open>_store_alert\<close> catches every exception of the Redis calls.\<close>

definition store_alert ::
  "environment \<Rightarrow> FraudAlertsPipeline \<Rightarrow> FraudAlert \<Rightarrow> FraudAlertsPipeline" where
  "store_alert env p alert =
     (case redis_store_error env of
        None \<Rightarrow> p\<lparr>outputs := outputs p @ [Stored alert]\<rparr>
      | Some e \<Rightarrow> p)"

definition send_alert ::
  "environment \<Rightarrow> FraudAlertsPipeline \<Rightarrow> FraudAlert \<Rightarrow> time \<Rightarrow> FraudAlertsPipeline" where
  "send_alert env p alert now =
     (let p1 = p\<lparr>alerts_generated := alerts_generated p @ [alert]\<rparr>;
          p2 = store_alert env p1 alert;
          results = notify_all_channels env (notifier p2) alert now
      in p2\<lparr>outputs := outputs p2 @ [Notified alert results]\<rparr>)"

text \<open>
  The two circuit breaker methods change the set first and publish afterwards, outside
  any \<open>try\<close>: the result is the exception of the publish, if any, and the pipeline.
\<close>

definition activate_circuit_breaker ::
  "environment \<Rightarrow> FraudAlertsPipeline \<Rightarrow> string \<Rightarrow> FraudAlert
     \<Rightarrow> py_error option \<times> FraudAlertsPipeline" where
  "activate_circuit_breaker env p feed alert =
     (let p1 = p\<lparr>circuit_breaker_active := insert feed (circuit_breaker_active p)\<rparr> in
      case redis_publish_error env ''circuit_breaker:activated'' of
        Some e \<Rightarrow> (Some e, p1)
      | None \<Rightarrow>
          (None, p1\<lparr>outputs := outputs p1
                      @ [Published ''circuit_breaker:activated'' feed (Some (alert_id alert))]\<rparr>))"

definition deactivate_circuit_breaker ::
  "environment \<Rightarrow> FraudAlertsPipeline \<Rightarrow> string \<Rightarrow> py_error option \<times> FraudAlertsPipeline" where
  "deactivate_circuit_breaker env p feed =
     (let p1 = p\<lparr>circuit_breaker_active := circuit_breaker_active p - {feed}\<rparr> in
      case redis_publish_error env ''circuit_breaker:deactivated'' of
        Some e \<Rightarrow> (Some e, p1)
      | None \<Rightarrow>
          (None, p1\<lparr>outputs := outputs p1
                      @ [Published ''circuit_breaker:deactivated'' feed None]\<rparr>))"

definition process_detection ::
  "environment \<Rightarrow> FraudAlertsPipeline \<Rightarrow> time \<Rightarrow> feed_data \<Rightarrow> Detection
     \<Rightarrow> py_error option \<times> FraudAlertsPipeline" where
  "process_detection env p now data detection =
     (let feed = feed_name_of data;
          ft = det_fraud_type detection;
          sev = det_severity detection;
          (admitted, dd) = should_alert (deduplicator p) feed (FraudType_value ft) sev now;
          p1 = p\<lparr>deduplicator := dd\<rparr>
      in
      if \<not> admitted then (None, p1)
      else
        let alert = create_alert env now feed ft sev (det_confidence detection)
                      (det_score detection) (det_description detection)
                      (det_evidence detection) (det_potential_loss detection);
            p2 = send_alert env p1 alert now
        in
        if enable_auto_circuit_break (config p2)
           \<and> det_score detection > circuit_break_threshold (config p2)
        then activate_circuit_breaker env p2 feed alert
        else (None, p2))"

text \<open>The loop \<open>for detection in detections\<close>; an exception ends it.\<close>

fun process_detections ::
  "environment \<Rightarrow> FraudAlertsPipeline \<Rightarrow> time \<Rightarrow> feed_data \<Rightarrow> Detection list
     \<Rightarrow> py_error option \<times> FraudAlertsPipeline" where
  "process_detections env p now data [] = (None, p)"
| "process_detections env p now data (d # ds) =
     (case process_detection env p now data d of
        (Some e, p') \<Rightarrow> (Some e, p')
      | (None, p') \<Rightarrow> process_detections env p' now data ds)"

definition handle_price_update ::
  "environment \<Rightarrow> FraudAlertsPipeline \<Rightarrow> time \<Rightarrow> feed_data
     \<Rightarrow> py_error option \<times> FraudAlertsPipeline" where
  "handle_price_update env p now data =
     (let feed = feed_name_of data in
      if feed \<in> circuit_breaker_active p then (None, p)
      else
        (case detect_fraud (detector p) data now of
           (Inl e, fd') \<Rightarrow> (Some e, p\<lparr>detector := fd'\<rparr>)
         | (Inr detections, fd') \<Rightarrow>
             process_detections env (p\<lparr>detector := fd'\<rparr>) now data detections))"

definition handle_external_anomaly ::
  "environment \<Rightarrow> FraudAlertsPipeline \<Rightarrow> time \<Rightarrow> feed_data
     \<Rightarrow> py_error option \<times> FraudAlertsPipeline" where
  "handle_external_anomaly env p now data =
     (let alert = create_alert env now (feed_name_of data) ORACLE_SPOOFING HIGH
                    (dict_get (ev_confidence data) 0.8)
                    (dict_get (ev_score data) 0.8)
                    (Desc (dict_get (ev_description data) ''External anomaly detected''))
                    (dict_get (ev_evidence data) [])
                    (dict_get (ev_potential_loss data) 0)
      in (None, send_alert env p alert now))"

text \<open>
  A bus message: its channel and its payload, \<open>None\<close> when \<open>json.loads\<close> raises.
  \<open>_process_message\<close> catches every exception of the handlers and returns.
\<close>

record message =
  msg_channel :: string
  msg_data :: "feed_data option"

definition process_message ::
  "environment \<Rightarrow> FraudAlertsPipeline \<Rightarrow> time \<Rightarrow> message \<Rightarrow> FraudAlertsPipeline" where
  "process_message env p now msg =
     (case msg_data msg of
        None \<Rightarrow> p
      | Some data \<Rightarrow>
          if msg_channel msg = ''price:update''
          then snd (handle_price_update env p now data)
          else if msg_channel msg = ''anomaly:detected''
          then snd (handle_external_anomaly env p now data)
          else p)"

text \<open>
  The life of a pipeline: messages from the bus, and calls of
  \<open>deactivate_circuit_breaker\<close> by the operator, each with the environment and the
  clock reading of its moment.
\<close>

datatype operation = Message message | Deactivate string

fun step :: "FraudAlertsPipeline \<Rightarrow> environment \<times> time \<times> operation \<Rightarrow> FraudAlertsPipeline" where
  "step p (env, now, Message msg) = process_message env p now msg"
| "step p (env, now, Deactivate feed) = snd (deactivate_circuit_breaker env p feed)"

definition run ::
  "FraudAlertsPipeline \<Rightarrow> (environment \<times> time \<times> operation) list \<Rightarrow> FraudAlertsPipeline" where
  "run p ops = foldl step p ops"

subsection \<open>Inputs of the examples\<close>

text \<open>
  The empty JSON object, a \<open>price:update\<close> message with its five fields, an
  \<open>anomaly:detected\<close> message that names its feed only, an environment whose Redis
  server answers every call, an HTTP endpoint that answers every POST with one status,
  and a pipeline with the default configuration after \<open>initialize\<close>.
\<close>

definition empty_data :: feed_data where
  "empty_data =
     \<lparr>ev_feed_name = None, ev_price = None, ev_volume = None, ev_source_count = None,
      ev_latency_ms = None, ev_timestamp = None, ev_confidence = None, ev_score = None,
      ev_description = None, ev_evidence = None, ev_potential_loss = None\<rparr>"

definition price_data :: "string \<Rightarrow> real \<Rightarrow> real \<Rightarrow> int \<Rightarrow> real \<Rightarrow> feed_data" where
  "price_data feed p v sc lat =
     empty_data\<lparr>ev_feed_name := Some feed, ev_price := Some p, ev_volume := Some v,
                ev_source_count := Some sc, ev_latency_ms := Some lat\<rparr>"

definition price_update :: "string \<Rightarrow> real \<Rightarrow> real \<Rightarrow> int \<Rightarrow> real \<Rightarrow> message" where
  "price_update feed p v sc lat =
     \<lparr>msg_channel = ''price:update'', msg_data = Some (price_data feed p v sc lat)\<rparr>"

definition anomaly_detected :: "string \<Rightarrow> message" where
  "anomaly_detected feed =
     \<lparr>msg_channel = ''anomaly:detected'',
      msg_data = Some (empty_data\<lparr>ev_feed_name := Some feed\<rparr>)\<rparr>"

definition quiet_env :: "(string \<Rightarrow> string) \<Rightarrow> (time \<Rightarrow> string) \<Rightarrow> environment" where
  "quiet_env h fmt =
     \<lparr>sha256_hexdigest = h, isoformat = fmt, redis_store_error = None,
      redis_publish_error = (\<lambda>c. None)\<rparr>"

definition answers :: "nat \<Rightarrow> http_session" where
  "answers status url body = Inr status"

definition pipeline0 :: FraudAlertsPipeline where
  "pipeline0 = initialize (FraudAlertsPipeline_init PipelineConfig_default) (answers 200)"

text \<open>A detector that has seen the given prices and volumes of one feed, all at time 0.\<close>

definition history :: "string \<Rightarrow> real list \<Rightarrow> real list \<Rightarrow> FraudDetector" where
  "history feed prices volumes =
     (FraudDetector_init None)
       \<lparr>price_buffer := [feed \<mapsto> prices],
        volume_buffer := [feed \<mapsto> volumes],
        timestamp_buffer := [feed \<mapsto> replicate (length prices) 0]\<rparr>"

text \<open>
  Four price updates of ETH/USD, one second apart, the first with price 0, none of which
  triggers a detector; and a fifth event with the same price and a latency of 5000 ms.
\<close>

definition zero_price_updates ::
  "(string \<Rightarrow> string) \<Rightarrow> (time \<Rightarrow> string) \<Rightarrow> (environment \<times> time \<times> operation) list" where
  "zero_price_updates h fmt =
     [(quiet_env h fmt, 0, Message (price_update ''ETH/USD'' 0 1000 5 100)),
      (quiet_env h fmt, 1000000, Message (price_update ''ETH/USD'' 1 1000 5 100)),
      (quiet_env h fmt, 2000000, Message (price_update ''ETH/USD'' (11 / 10) 1000 5 100)),
      (quiet_env h fmt, 3000000, Message (price_update ''ETH/USD'' (11 / 10) 1000 5 100))]"

definition slow_update :: feed_data where
  "slow_update = price_data ''ETH/USD'' (11 / 10) 1000 5 5000"

subsection \<open>Predicates of the claims\<close>

text \<open>The confidence of a detection lies in the closed interval from 0 to 1.\<close>

definition confidence_in_unit :: "Detection \<Rightarrow> bool" where
  "confidence_in_unit r \<longleftrightarrow> 0 \<le> det_confidence r \<and> det_confidence r \<le> 1"

text \<open>
  The rolling history of a feed is the same in two detectors: its three buffers are equal.
\<close>

definition same_history :: "FraudDetector \<Rightarrow> FraudDetector \<Rightarrow> string \<Rightarrow> bool" where
  "same_history fd fd' feed \<longleftrightarrow>
     price_buffer fd' feed = price_buffer fd feed
     \<and> volume_buffer fd' feed = volume_buffer fd feed
     \<and> timestamp_buffer fd' feed = timestamp_buffer fd feed"

text \<open>
  A pipeline whose breaker for ETH/USD is active (a latency of 5000 ms scores 5, above the
  threshold 0.95), and what happens next: another slow price update of ETH/USD, an
  external anomaly of ETH/USD, and the deactivation of the breaker of another feed.
\<close>

definition suspended_pipeline ::
  "(string \<Rightarrow> string) \<Rightarrow> (time \<Rightarrow> string) \<Rightarrow> FraudAlertsPipeline" where
  "suspended_pipeline h fmt =
     run pipeline0
       [(quiet_env h fmt, 0, Message (price_update ''ETH/USD'' 2000 1000 5 5000))]"

definition later_operations ::
  "(string \<Rightarrow> string) \<Rightarrow> (time \<Rightarrow> string) \<Rightarrow> (environment \<times> time \<times> operation) list" where
  "later_operations h fmt =
     [(quiet_env h fmt, 1000000, Message (price_update ''ETH/USD'' 2400 1000 5 5000)),
      (quiet_env h fmt, 2000000, Message (anomaly_detected ''ETH/USD'')),
      (quiet_env h fmt, 3000000, Deactivate ''BTC/USD'')]"

text \<open>
  An alert as \<open>_handle_external_anomaly\<close> builds it for a message without optional
  keys, and a notifier with a webhook URL whose endpoint answers with a given status.
\<close>

definition sample_alert :: FraudAlert where
  "sample_alert =
     \<lparr>alert_id = ''3f9a1c0b7d2e4a68'',
      alert_timestamp = ''2025-01-01T00:00:00'',
      alert_feed_name = ''ETH/USD'',
      alert_fraud_type = ''ORACLE_SPOOFING'',
      alert_severity = ''HIGH'',
      alert_confidence = 0.8,
      alert_anomaly_score = 0.8,
      alert_description = Desc ''External anomaly detected'',
      alert_evidence = [],
      alert_recommended_actions = get_recommended_actions ORACLE_SPOOFING HIGH,
      alert_affected_contracts = [''0x0f5a3c''],
      alert_potential_loss_usd = 0,
      alert_is_acknowledged = False,
      alert_acknowledged_by = None,
      alert_resolution_status = ''OPEN'',
      alert_tags = generate_tags ORACLE_SPOOFING HIGH\<rparr>"

definition webhook_notifier :: "nat \<Rightarrow> AlertNotifier" where
  "webhook_notifier status =
     \<lparr>notifier_config = PipelineConfig_default\<lparr>webhook_url := Some ''https://hooks.example/alerts''\<rparr>,
      session = Some (answers status)\<rparr>"


section \<open>Unfolding the definitions on concrete inputs\<close>

lemmas example_defs = empty_data_def price_data_def price_update_def anomaly_detected_def
  quiet_env_def answers_def pipeline0_def history_def zero_price_updates_def slow_update_def
  suspended_pipeline_def later_operations_def

lemmas detector_defs = detect_fraud_def run_detectors_def detect_price_manipulation_def
  detect_volume_anomaly_def detect_latency_spike_def detect_source_degradation_def
  detect_sandwich_attack_def detect_with_ml_def is_flash_loan_pattern_def append_buffers_def
  FraudDetector_init_def dict_get_def buffer_list_def deque_append_def last_n_def
  estimate_loss_def thresholds_price_change_def thresholds_volume_spike_def
  thresholds_latency_spike_def thresholds_source_minimum_def thresholds_anomaly_score_def

lemmas pipeline_defs = run_def process_message_def handle_price_update_def
  handle_external_anomaly_def feed_name_of_def FraudAlertsPipeline_init_def initialize_def
  PipelineConfig_default_def AlertDeduplicator_init_def process_detection_def
  should_alert_def increment_count_def dedup_key_def elapsed_minutes_def send_alert_def
  store_alert_def create_alert_def activate_circuit_breaker_def
  deactivate_circuit_breaker_def

section \<open>Properties of the deduplicator\<close>

lemma should_alert_critical:
  "should_alert d f t CRITICAL now =
     (True, d\<lparr>recent_alerts := (recent_alerts d)(dedup_key f t \<mapsto> now)\<rparr>)"
  by (simp add: should_alert_def)

lemma should_alert_in_cooldown:
  assumes "sev \<noteq> CRITICAL" and "recent_alerts d (dedup_key f t) = Some prev"
    and "elapsed_minutes now prev < real_of_int (cooldown_minutes d)"
  shows "should_alert d f t sev now = (False, d)"
  using assms by (simp add: should_alert_def)

lemma should_alert_fresh:
  assumes "sev \<noteq> CRITICAL"
    and "recent_alerts d (dedup_key f t) = None
         \<or> (\<exists>prev. recent_alerts d (dedup_key f t) = Some prev
               \<and> \<not> elapsed_minutes now prev < real_of_int (cooldown_minutes d))"
  shows "should_alert d f t sev now =
     (True, increment_count (d\<lparr>recent_alerts := (recent_alerts d)(dedup_key f t \<mapsto> now)\<rparr>)
              (dedup_key f t))"
  using assms by (auto simp add: should_alert_def Let_def)

text \<open>
  C1. A CRITICAL call to \<open>should_alert\<close> returns true whatever the cooldown state of
  the key, and records the current time as the key's last alert; a later non-CRITICAL
  call for the same key within \<open>cooldown_minutes\<close> of it returns false.
\<close>

theorem critical_admitted_and_resets_cooldown:
  "fst (should_alert d f t CRITICAL now)
   \<and> recent_alerts (snd (should_alert d f t CRITICAL now)) (dedup_key f t) = Some now
   \<and> (\<forall>sev now'. sev \<noteq> CRITICAL
          \<and> within_cooldown (snd (should_alert d f t CRITICAL now)) now now'
        \<longrightarrow> \<not> fst (should_alert (snd (should_alert d f t CRITICAL now)) f t sev now'))"
  by (simp add: should_alert_critical should_alert_in_cooldown within_cooldown_def)

text \<open>
  Instance of C1: feed ETH/USD, cooldown 5 minutes, a CRITICAL price manipulation at
  time 0 and a HIGH one two minutes later.
\<close>

theorem critical_admitted_and_resets_cooldown_witness:
  "HIGH \<noteq> CRITICAL
   \<and> within_cooldown
        (snd (should_alert (AlertDeduplicator_init 5) ''ETH/USD'' ''PRICE_MANIPULATION''
                CRITICAL 0)) 0 120000000
   \<and> fst (should_alert (AlertDeduplicator_init 5) ''ETH/USD'' ''PRICE_MANIPULATION''
            CRITICAL 0)
   \<and> \<not> fst (should_alert
              (snd (should_alert (AlertDeduplicator_init 5) ''ETH/USD''
                      ''PRICE_MANIPULATION'' CRITICAL 0))
              ''ETH/USD'' ''PRICE_MANIPULATION'' HIGH 120000000)"
proof -
  let ?d = "AlertDeduplicator_init 5"
  let ?d' = "snd (should_alert ?d ''ETH/USD'' ''PRICE_MANIPULATION'' CRITICAL 0)"
  have w: "within_cooldown ?d' 0 120000000"
    by (simp add: within_cooldown_def elapsed_minutes_def should_alert_def
        AlertDeduplicator_init_def)
  from critical_admitted_and_resets_cooldown
    [of ?d "''ETH/USD''" "''PRICE_MANIPULATION''" 0]
  have "fst (should_alert ?d ''ETH/USD'' ''PRICE_MANIPULATION'' CRITICAL 0)"
    and "\<forall>sev now'. sev \<noteq> CRITICAL \<and> within_cooldown ?d' 0 now'
          \<longrightarrow> \<not> fst (should_alert ?d' ''ETH/USD'' ''PRICE_MANIPULATION'' sev now')"
    by blast+
  with w show ?thesis by blast
qed

text \<open>
  C5. Two non-CRITICAL detections of one key, the first made when the key has no entry
  (or only one whose cooldown has run out), the second within \<open>cooldown_minutes\<close> of the
  first: the first call returns true and the second false, so exactly one is admitted.
\<close>

theorem two_detections_within_cooldown_one_admitted:
  assumes "sev1 \<noteq> CRITICAL" and "sev2 \<noteq> CRITICAL"
    and "recent_alerts d (dedup_key f t) = None
         \<or> (\<exists>prev. recent_alerts d (dedup_key f t) = Some prev
               \<and> \<not> elapsed_minutes now1 prev < real_of_int (cooldown_minutes d))"
    and "within_cooldown d now1 now2"
  shows "fst (should_alert d f t sev1 now1)
         \<and> \<not> fst (should_alert (snd (should_alert d f t sev1 now1)) f t sev2 now2)"
proof -
  let ?k = "dedup_key f t"
  let ?d1 = "increment_count (d\<lparr>recent_alerts := (recent_alerts d)(?k \<mapsto> now1)\<rparr>) ?k"
  have first: "should_alert d f t sev1 now1 = (True, ?d1)"
    using assms(1,3) by (rule should_alert_fresh)
  have entry: "recent_alerts ?d1 ?k = Some now1"
    by (simp add: increment_count_def)
  have cool: "elapsed_minutes now2 now1 < real_of_int (cooldown_minutes ?d1)"
    using assms(4) by (simp add: within_cooldown_def increment_count_def)
  have "should_alert ?d1 f t sev2 now2 = (False, ?d1)"
    using assms(2) entry cool by (rule should_alert_in_cooldown)
  with first show ?thesis by simp
qed

theorem two_detections_within_cooldown_one_admitted_witness:
  "HIGH \<noteq> CRITICAL \<and> MEDIUM \<noteq> CRITICAL
   \<and> recent_alerts (AlertDeduplicator_init 5) (dedup_key ''ETH/USD'' ''VOLUME_ANOMALY'') = None
   \<and> within_cooldown (AlertDeduplicator_init 5) 1000000 61000000
   \<and> fst (should_alert (AlertDeduplicator_init 5) ''ETH/USD'' ''VOLUME_ANOMALY'' HIGH 1000000)
   \<and> \<not> fst (should_alert
              (snd (should_alert (AlertDeduplicator_init 5) ''ETH/USD'' ''VOLUME_ANOMALY''
                      HIGH 1000000))
              ''ETH/USD'' ''VOLUME_ANOMALY'' MEDIUM 61000000)"
proof -
  let ?d = "AlertDeduplicator_init 5"
  have s1: "HIGH \<noteq> CRITICAL" and s2: "MEDIUM \<noteq> CRITICAL" by simp_all
  have e: "recent_alerts ?d (dedup_key ''ETH/USD'' ''VOLUME_ANOMALY'') = None"
    by (simp add: AlertDeduplicator_init_def)
  have w: "within_cooldown ?d 1000000 61000000"
    by (simp add: within_cooldown_def elapsed_minutes_def AlertDeduplicator_init_def)
  from two_detections_within_cooldown_one_admitted [OF s1 s2 disjI1 [OF e] w] s1 s2 e w
  show ?thesis by blast
qed

text \<open>
  C8. An admitted detection sets the key's last alert time; the per-key counter is
  incremented on the non-CRITICAL path only. At the first CRITICAL detection of a key
  \<open>should_alert\<close> returns true, records the time, and leaves \<open>alert_counts\<close> without
  an entry for the key, where a HIGH detection in the same state counts 1.
\<close>

theorem critical_admitted_not_counted:
  "fst (should_alert (AlertDeduplicator_init 5) ''ETH/USD'' ''SOURCE_DEGRADATION'' CRITICAL 0)
   \<and> recent_alerts
        (snd (should_alert (AlertDeduplicator_init 5) ''ETH/USD'' ''SOURCE_DEGRADATION''
                CRITICAL 0))
        (dedup_key ''ETH/USD'' ''SOURCE_DEGRADATION'') = Some 0
   \<and> get_alert_statistics
        (snd (should_alert (AlertDeduplicator_init 5) ''ETH/USD'' ''SOURCE_DEGRADATION''
                CRITICAL 0))
        (dedup_key ''ETH/USD'' ''SOURCE_DEGRADATION'') = None
   \<and> get_alert_statistics
        (snd (should_alert (AlertDeduplicator_init 5) ''ETH/USD'' ''SOURCE_DEGRADATION''
                HIGH 0))
        (dedup_key ''ETH/USD'' ''SOURCE_DEGRADATION'') = Some 1"
  by (simp add: should_alert_def increment_count_def get_alert_statistics_def
      AlertDeduplicator_init_def Let_def)

section \<open>Properties of the detectors\<close>

text \<open>
  Each detector's results have one of a few shapes of confidence; the shapes are read off
  the definitions first, the arithmetic comes after.
\<close>

lemma unit_min: "0 < t \<Longrightarrow> t < c \<Longrightarrow> 0 \<le> min (c / t) (1::real) \<and> min (c / t) 1 \<le> 1"
  by simp

lemma price_manipulation_shape:
  "list_all (\<lambda>r. (\<exists>c. c > thresholds_price_change
                      \<and> det_confidence r = min (c / thresholds_price_change) 1.0)
                \<or> det_confidence r = 0.85)
     (detect_price_manipulation fd feed data)"
  apply (simp only: detect_price_manipulation_def Let_def)
  apply (simp only: list.pred_inject list_all_append Detection.simps split: if_split)
  apply blast
  done

lemma volume_anomaly_shape:
  "list_all (\<lambda>r. \<exists>c. c > thresholds_volume_spike
                      \<and> det_confidence r = min (c / (thresholds_volume_spike * 2)) 1.0)
     (detect_volume_anomaly fd feed data)"
  apply (simp only: detect_volume_anomaly_def Let_def)
  apply (simp only: list.pred_inject list_all_append Detection.simps split: if_split)
  apply blast
  done

lemma latency_spike_shape:
  "list_all (\<lambda>r. det_confidence r = 0.9) (detect_latency_spike fd feed data)"
  apply (simp only: detect_latency_spike_def Let_def)
  apply (simp only: list.pred_inject Detection.simps split: if_split)
  apply blast
  done

lemma source_degradation_shape:
  "list_all (\<lambda>r. det_confidence r = 0.95) (detect_source_degradation fd feed data)"
  apply (simp only: detect_source_degradation_def Let_def)
  apply (simp only: list.pred_inject Detection.simps split: if_split)
  apply blast
  done

lemma sandwich_attack_shape:
  "case detect_sandwich_attack fd feed data of
     Inl e \<Rightarrow> e = ZeroDivisionError
   | Inr rs \<Rightarrow> list_all (\<lambda>r. det_confidence r = 0.75) rs"
  apply (simp only: detect_sandwich_attack_def Let_def)
  apply (simp only: list.pred_inject Detection.simps sum.case split: if_split)
  apply blast
  done

lemma with_ml_shape:
  "list_all (\<lambda>r. \<exists>s. det_confidence r = min (max s 0) 1) (detect_with_ml fd feed data)"
  apply (simp only: detect_with_ml_def Let_def)
  apply (simp only: list.pred_inject Detection.simps prod.case
      split: if_split option.split sum.split)
  apply blast
  done

lemma price_manipulation_confidence:
  "list_all confidence_in_unit (detect_price_manipulation fd feed data)"
proof (rule list.pred_mono_strong [OF price_manipulation_shape])
  fix r :: Detection
  assume "(\<exists>c. c > thresholds_price_change
               \<and> det_confidence r = min (c / thresholds_price_change) 1.0)
          \<or> det_confidence r = 0.85"
  then show "confidence_in_unit r"
  proof
    assume "\<exists>c. c > thresholds_price_change
               \<and> det_confidence r = min (c / thresholds_price_change) 1.0"
    then obtain c where c: "thresholds_price_change < c"
      and r: "det_confidence r = min (c / thresholds_price_change) 1" by auto
    have "0 < thresholds_price_change" by (simp add: thresholds_price_change_def)
    from unit_min [OF this c] r show ?thesis by (simp add: confidence_in_unit_def)
  next
    assume "det_confidence r = 0.85"
    then show ?thesis by (simp add: confidence_in_unit_def)
  qed
qed

lemma volume_anomaly_confidence:
  "list_all confidence_in_unit (detect_volume_anomaly fd feed data)"
proof (rule list.pred_mono_strong [OF volume_anomaly_shape])
  fix r :: Detection
  assume "\<exists>c. c > thresholds_volume_spike
               \<and> det_confidence r = min (c / (thresholds_volume_spike * 2)) 1.0"
  then obtain c where c: "thresholds_volume_spike < c"
    and r: "det_confidence r = min (c / (thresholds_volume_spike * 2)) 1" by auto
  have "0 < thresholds_volume_spike" by (simp add: thresholds_volume_spike_def)
  with c have "0 \<le> c / (thresholds_volume_spike * 2)" by simp
  with r show "confidence_in_unit r" by (simp add: confidence_in_unit_def)
qed

lemma latency_spike_confidence:
  "list_all confidence_in_unit (detect_latency_spike fd feed data)"
  by (rule list.pred_mono_strong [OF latency_spike_shape]) (simp add: confidence_in_unit_def)

lemma source_degradation_confidence:
  "list_all confidence_in_unit (detect_source_degradation fd feed data)"
  by (rule list.pred_mono_strong [OF source_degradation_shape])
    (simp add: confidence_in_unit_def)

lemma sandwich_attack_confidence:
  "case detect_sandwich_attack fd feed data of
     Inl e \<Rightarrow> True | Inr rs \<Rightarrow> list_all confidence_in_unit rs"
proof (cases "detect_sandwich_attack fd feed data")
  case (Inl e)
  then show ?thesis by simp
next
  case (Inr rs)
  with sandwich_attack_shape [of fd feed data]
  have "list_all (\<lambda>r. det_confidence r = 0.75) rs" by simp
  then have "list_all confidence_in_unit rs"
    by (rule list.pred_mono_strong) (simp add: confidence_in_unit_def)
  with Inr show ?thesis by simp
qed

lemma with_ml_confidence:
  "list_all confidence_in_unit (detect_with_ml fd feed data)"
proof (rule list.pred_mono_strong [OF with_ml_shape])
  fix r :: Detection
  assume "\<exists>s. det_confidence r = min (max s 0) 1"
  then show "confidence_in_unit r" by (auto simp add: confidence_in_unit_def)
qed

lemma run_detectors_confidence:
  "case run_detectors fd feed data of
     Inl e \<Rightarrow> True | Inr rs \<Rightarrow> list_all confidence_in_unit rs"
proof (cases "detect_sandwich_attack fd feed data")
  case (Inl e)
  then show ?thesis by (simp add: run_detectors_def)
next
  case (Inr sw)
  with sandwich_attack_confidence [of fd feed data]
  have "list_all confidence_in_unit sw" by simp
  with Inr show ?thesis
    by (simp add: run_detectors_def price_manipulation_confidence
        volume_anomaly_confidence latency_spike_confidence
        source_degradation_confidence with_ml_confidence)
qed

text \<open>
  C6. Whatever the event and the rolling history, every result of every detector of
  \<open>detect_fraud\<close> (price manipulation with its flash loan result, volume anomaly,
  latency spike, source degradation, sandwich attack when it returns, the ML detector),
  and so every result \<open>detect_fraud\<close> returns, has its confidence in \<open>[0, 1]\<close>.
\<close>

theorem confidence_always_in_unit_interval:
  "list_all confidence_in_unit (detect_price_manipulation fd feed data)
   \<and> list_all confidence_in_unit (detect_volume_anomaly fd feed data)
   \<and> list_all confidence_in_unit (detect_latency_spike fd feed data)
   \<and> list_all confidence_in_unit (detect_source_degradation fd feed data)
   \<and> (case detect_sandwich_attack fd feed data of
         Inl e \<Rightarrow> True | Inr rs \<Rightarrow> list_all confidence_in_unit rs)
   \<and> list_all confidence_in_unit (detect_with_ml fd feed data)
   \<and> (case fst (detect_fraud fd data now) of
         Inl e \<Rightarrow> True | Inr rs \<Rightarrow> list_all confidence_in_unit rs)"
  using price_manipulation_confidence volume_anomaly_confidence latency_spike_confidence
    source_degradation_confidence sandwich_attack_confidence with_ml_confidence
    run_detectors_confidence [of "append_buffers fd data now"]
  by (simp add: detect_fraud_def Let_def)

text \<open>
  Instance of C6: after the prices 100, 120, 120 the event with price 150 yields a price
  manipulation result of confidence 1 and a flash loan result of confidence 0.85.
\<close>

theorem confidence_always_in_unit_interval_witness:
  "map_sum id (map det_confidence)
     (fst (detect_fraud (history ''ETH/USD'' [100, 120, 120] [1000, 1000, 1000])
             (price_data ''ETH/USD'' 150 1000 5 100) 0)) = Inr [1, 85 / 100]
   \<and> map_sum id (list_all confidence_in_unit)
       (fst (detect_fraud (history ''ETH/USD'' [100, 120, 120] [1000, 1000, 1000])
               (price_data ''ETH/USD'' 150 1000 5 100) 0)) = Inr True"
proof -
  let ?r = "fst (detect_fraud (history ''ETH/USD'' [100, 120, 120] [1000, 1000, 1000])
               (price_data ''ETH/USD'' 150 1000 5 100) 0)"
  have c: "map_sum id (map det_confidence) ?r = Inr [1, 85 / 100]"
    by (simp add: example_defs detector_defs Let_def)
  have "case ?r of Inl e \<Rightarrow> True | Inr rs \<Rightarrow> list_all confidence_in_unit rs"
    using confidence_always_in_unit_interval
      [of "history ''ETH/USD'' [100, 120, 120] [1000, 1000, 1000]" "''ETH/USD''"
          "price_data ''ETH/USD'' 150 1000 5 100" 0]
    by blast
  with c have "map_sum id (list_all confidence_in_unit) ?r = Inr True"
    by (cases ?r) simp_all
  with c show ?thesis by blast
qed

text \<open>
  C2, evaluated where the code leaves it. The last four prices are 100, 120, 120, 150:
  a move of +20% and a move of +25%, both upwards. \<open>_is_flash_loan_pattern\<close> compares
  the two magnitudes with 0.1 and never the two signs, so it holds, and the price
  manipulation detector emits the CRITICAL FLASH_LOAN_ATTACK result (confidence 0.85,
  loss twice the price manipulation loss of 25) although no move reverses another.
\<close>

theorem flash_loan_emitted_for_same_direction_moves:
  "buffer_list
     (price_buffer (snd (detect_fraud (history ''ETH/USD'' [100, 120, 120] [1000, 1000, 1000])
                           (price_data ''ETH/USD'' 150 1000 5 100) 0))) ''ETH/USD''
     = [100, 120, 120, 150]
   \<and> is_flash_loan_pattern
       (snd (detect_fraud (history ''ETH/USD'' [100, 120, 120] [1000, 1000, 1000])
               (price_data ''ETH/USD'' 150 1000 5 100) 0)) ''ETH/USD''
   \<and> map_sum id (map det_fraud_type)
       (fst (detect_fraud (history ''ETH/USD'' [100, 120, 120] [1000, 1000, 1000])
               (price_data ''ETH/USD'' 150 1000 5 100) 0))
       = Inr [PRICE_MANIPULATION, FLASH_LOAN_ATTACK]
   \<and> map_sum id (map det_severity)
       (fst (detect_fraud (history ''ETH/USD'' [100, 120, 120] [1000, 1000, 1000])
               (price_data ''ETH/USD'' 150 1000 5 100) 0))
       = Inr [HIGH, CRITICAL]
   \<and> map_sum id (map det_confidence)
       (fst (detect_fraud (history ''ETH/USD'' [100, 120, 120] [1000, 1000, 1000])
               (price_data ''ETH/USD'' 150 1000 5 100) 0))
       = Inr [1, 85 / 100]
   \<and> map_sum id (map det_potential_loss)
       (fst (detect_fraud (history ''ETH/USD'' [100, 120, 120] [1000, 1000, 1000])
               (price_data ''ETH/USD'' 150 1000 5 100) 0))
       = Inr [25, 50]"
  by (simp add: example_defs detector_defs Let_def)

text \<open>
  C3, evaluated where the code leaves it. After four quiet price updates of ETH/USD, the
  first with price 0, no alert exists and no circuit breaker is active. On the fifth
  event the latency detector produces its LATENCY_SPIKE result, the sandwich detector
  then divides by the price 0 at offset -4, \<open>detect_fraud\<close> ends with
  ZeroDivisionError, and the pipeline generates no alert for the event. With 1 as first
  price, the same fifth event does generate the LATENCY_SPIKE alert.
\<close>

theorem sandwich_exception_suppresses_latency_detection:
  "alerts_generated (run pipeline0 (zero_price_updates h fmt)) = []
   \<and> circuit_breaker_active (run pipeline0 (zero_price_updates h fmt)) = {}
   \<and> map det_fraud_type
       (detect_latency_spike
          (append_buffers (detector (run pipeline0 (zero_price_updates h fmt)))
             slow_update 4000000)
          ''ETH/USD'' slow_update) = [LATENCY_SPIKE]
   \<and> fst (detect_fraud (detector (run pipeline0 (zero_price_updates h fmt)))
           slow_update 4000000) = Inl ZeroDivisionError
   \<and> alerts_generated
       (run pipeline0
          (zero_price_updates h fmt
           @ [(quiet_env h fmt, 4000000,
               Message \<lparr>msg_channel = ''price:update'', msg_data = Some slow_update\<rparr>)]))
       = []
   \<and> map alert_fraud_type
       (alerts_generated
          (run pipeline0
             ((quiet_env h fmt, 0, Message (price_update ''ETH/USD'' 1 1000 5 100))
              # tl (zero_price_updates h fmt)
              @ [(quiet_env h fmt, 4000000,
                  Message \<lparr>msg_channel = ''price:update'', msg_data = Some slow_update\<rparr>)])))
       = [''LATENCY_SPIKE'']"
  by (simp add: example_defs detector_defs pipeline_defs Let_def)

section \<open>Properties of the pipeline\<close>

text \<open>What each operation leaves unchanged.\<close>

lemma store_alert_fields:
  "circuit_breaker_active (store_alert env p a) = circuit_breaker_active p"
  "detector (store_alert env p a) = detector p"
  "deduplicator (store_alert env p a) = deduplicator p"
  "config (store_alert env p a) = config p"
  "notifier (store_alert env p a) = notifier p"
  "alerts_generated (store_alert env p a) = alerts_generated p"
  by (simp_all add: store_alert_def split: option.split)

lemma send_alert_fields:
  "circuit_breaker_active (send_alert env p a now) = circuit_breaker_active p"
  "detector (send_alert env p a now) = detector p"
  "deduplicator (send_alert env p a now) = deduplicator p"
  "config (send_alert env p a now) = config p"
  "notifier (send_alert env p a now) = notifier p"
  "alerts_generated (send_alert env p a now) = alerts_generated p @ [a]"
  by (simp_all add: send_alert_def Let_def store_alert_fields)


lemma activate_circuit_breaker_fields:
  "circuit_breaker_active (snd (activate_circuit_breaker env p f a))
     = insert f (circuit_breaker_active p)"
  "detector (snd (activate_circuit_breaker env p f a)) = detector p"
  by (simp_all add: activate_circuit_breaker_def Let_def split: option.split)

lemma process_detection_detector:
  "detector (snd (process_detection env p now data det)) = detector p"
  by (simp add: process_detection_def Let_def send_alert_fields
      activate_circuit_breaker_fields split: prod.split)

lemma process_detection_breakers:
  "circuit_breaker_active (snd (process_detection env p now data det))
     = circuit_breaker_active p
   \<or> circuit_breaker_active (snd (process_detection env p now data det))
     = insert (feed_name_of data) (circuit_breaker_active p)"
  by (simp add: process_detection_def Let_def send_alert_fields
      activate_circuit_breaker_fields split: prod.split)

lemma process_detections_detector:
  "detector (snd (process_detections env p now data ds)) = detector p"
proof (induction ds arbitrary: p)
  case Nil
  then show ?case by simp
next
  case (Cons d ds)
  obtain r p' where r: "process_detection env p now data d = (r, p')"
    by (cases "process_detection env p now data d")
  then have "detector p' = detector p"
    using process_detection_detector [of env p now data d] by simp
  with r Cons.IH [of p'] show ?case by (cases r) simp_all
qed

lemma process_detections_breakers:
  "circuit_breaker_active (snd (process_detections env p now data ds))
     = circuit_breaker_active p
   \<or> circuit_breaker_active (snd (process_detections env p now data ds))
     = insert (feed_name_of data) (circuit_breaker_active p)"
proof (induction ds arbitrary: p)
  case Nil
  then show ?case by simp
next
  case (Cons d ds)
  obtain r p' where r: "process_detection env p now data d = (r, p')"
    by (cases "process_detection env p now data d")
  then have p': "circuit_breaker_active p' = circuit_breaker_active p
      \<or> circuit_breaker_active p' = insert (feed_name_of data) (circuit_breaker_active p)"
    using process_detection_breakers [of env p now data d] by simp
  show ?case
  proof (cases r)
    case (Some e)
    with r p' show ?thesis by simp
  next
    case None
    with r have "process_detections env p now data (d # ds)
        = process_detections env p' now data ds" by simp
    with Cons.IH [of p'] p' show ?thesis by auto
  qed
qed

lemma append_buffers_other_feed:
  assumes "feed_name_of data \<noteq> feed"
  shows "price_buffer (append_buffers fd data now) feed = price_buffer fd feed"
    and "volume_buffer (append_buffers fd data now) feed = volume_buffer fd feed"
    and "timestamp_buffer (append_buffers fd data now) feed = timestamp_buffer fd feed"
  using assms by (simp_all add: append_buffers_def feed_name_of_def Let_def)

lemma handle_price_update_suspended:
  "feed_name_of data \<in> circuit_breaker_active p
   \<Longrightarrow> handle_price_update env p now data = (None, p)"
  by (simp add: handle_price_update_def)

lemma handle_price_update_breakers:
  "circuit_breaker_active p
     \<subseteq> circuit_breaker_active (snd (handle_price_update env p now data))"
proof (cases "feed_name_of data \<in> circuit_breaker_active p")
  case True
  then show ?thesis by (simp add: handle_price_update_suspended)
next
  case False
  obtain r fd' where d: "detect_fraud (detector p) data now = (r, fd')"
    by (cases "detect_fraud (detector p) data now")
  show ?thesis
  proof (cases r)
    case (Inl e)
    with d False show ?thesis by (simp add: handle_price_update_def)
  next
    case (Inr ds)
    with d False have "handle_price_update env p now data
        = process_detections env (p\<lparr>detector := fd'\<rparr>) now data ds"
      by (simp add: handle_price_update_def)
    with process_detections_breakers [of env "p\<lparr>detector := fd'\<rparr>" now data ds]
    show ?thesis by auto
  qed
qed

lemma handle_price_update_history:
  assumes "feed \<in> circuit_breaker_active p"
  shows "same_history (detector p) (detector (snd (handle_price_update env p now data))) feed"
proof (cases "feed_name_of data \<in> circuit_breaker_active p")
  case True
  then show ?thesis by (simp add: handle_price_update_suspended same_history_def)
next
  case False
  with assms have other: "feed_name_of data \<noteq> feed" by auto
  obtain r fd' where d: "detect_fraud (detector p) data now = (r, fd')"
    by (cases "detect_fraud (detector p) data now")
  then have fd': "fd' = append_buffers (detector p) data now"
    by (simp add: detect_fraud_def Let_def)
  have "detector (snd (handle_price_update env p now data)) = fd'"
  proof (cases r)
    case (Inl e)
    with d False show ?thesis by (simp add: handle_price_update_def)
  next
    case (Inr ds)
    with d False show ?thesis
      by (simp add: handle_price_update_def process_detections_detector)
  qed
  with fd' other show ?thesis
    by (simp add: same_history_def append_buffers_other_feed)
qed

lemma same_history_refl: "same_history fd fd feed"
  by (simp add: same_history_def)

lemma same_history_trans:
  "same_history a b feed \<Longrightarrow> same_history b c feed \<Longrightarrow> same_history a c feed"
  by (simp add: same_history_def)

lemma process_message_suspended:
  assumes "feed \<in> circuit_breaker_active p"
  shows "feed \<in> circuit_breaker_active (process_message env p now msg)"
    and "same_history (detector p) (detector (process_message env p now msg)) feed"
proof -
  show "feed \<in> circuit_breaker_active (process_message env p now msg)"
  proof (cases "msg_data msg")
    case None
    with assms show ?thesis by (simp add: process_message_def)
  next
    case (Some data)
    with assms handle_price_update_breakers [of p env now data] show ?thesis
      by (auto simp add: process_message_def handle_external_anomaly_def send_alert_fields)
  qed
  show "same_history (detector p) (detector (process_message env p now msg)) feed"
  proof (cases "msg_data msg")
    case None
    then show ?thesis by (simp add: process_message_def same_history_refl)
  next
    case (Some data)
    with handle_price_update_history [OF assms, of env now data] show ?thesis
      by (simp add: process_message_def handle_external_anomaly_def send_alert_fields
          same_history_refl)
  qed
qed

lemma step_suspended:
  assumes "feed \<in> circuit_breaker_active p" and "snd (snd x) \<noteq> Deactivate feed"
  shows "feed \<in> circuit_breaker_active (step p x)"
    and "same_history (detector p) (detector (step p x)) feed"
proof -
  obtain env now op where x: "x = (env, now, op)" by (cases x)
  show "feed \<in> circuit_breaker_active (step p x)"
  proof (cases op)
    case (Message msg)
    with x process_message_suspended(1) [OF assms(1)] show ?thesis by simp
  next
    case (Deactivate f)
    with x assms show ?thesis
      by (simp add: deactivate_circuit_breaker_def Let_def split: option.split)
  qed
  show "same_history (detector p) (detector (step p x)) feed"
  proof (cases op)
    case (Message msg)
    with x process_message_suspended(2) [OF assms(1)] show ?thesis by simp
  next
    case (Deactivate f)
    with x show ?thesis
      by (simp add: deactivate_circuit_breaker_def Let_def same_history_refl
          split: option.split)
  qed
qed

lemma run_suspended:
  assumes "feed \<in> circuit_breaker_active p"
    and "Deactivate feed \<notin> snd ` snd ` set ops"
  shows "feed \<in> circuit_breaker_active (run p ops)
         \<and> same_history (detector p) (detector (run p ops)) feed"
  using assms
proof (induction ops arbitrary: p)
  case Nil
  then show ?case by (simp add: run_def same_history_refl)
next
  case (Cons x ops)
  from Cons.prems(2) have x: "snd (snd x) \<noteq> Deactivate feed"
    and rest: "Deactivate feed \<notin> snd ` snd ` set ops" by auto
  from step_suspended [OF Cons.prems(1) x]
  have a: "feed \<in> circuit_breaker_active (step p x)"
    and h: "same_history (detector p) (detector (step p x)) feed" by simp_all
  from Cons.IH [OF a rest] h show ?case
    by (auto simp add: run_def intro: same_history_trans)
qed

text \<open>
  C4. Let the breaker of a feed be active, and let any operations follow, none of them
  the deactivation of that feed. Then the breaker is still active; the detector's
  history of the feed is as it was; a price update of the feed returns at once, leaving
  the pipeline as it is (no detector runs); and a further detection of the feed, or a
  further activation, leaves the set of active breakers as it is.
\<close>

theorem circuit_breaker_holds_until_deactivated:
  assumes "feed \<in> circuit_breaker_active p"
    and "Deactivate feed \<notin> snd ` snd ` set ops"
  shows "feed \<in> circuit_breaker_active (run p ops)
     \<and> same_history (detector p) (detector (run p ops)) feed
     \<and> (\<forall>env now data. feed_name_of data = feed \<longrightarrow>
           handle_price_update env (run p ops) now data = (None, run p ops)
           \<and> process_message env (run p ops) now
                \<lparr>msg_channel = ''price:update'', msg_data = Some data\<rparr> = run p ops)
     \<and> (\<forall>env now data det. feed_name_of data = feed \<longrightarrow>
           circuit_breaker_active (snd (process_detection env (run p ops) now data det))
             = circuit_breaker_active (run p ops))
     \<and> (\<forall>env alert.
           circuit_breaker_active (snd (activate_circuit_breaker env (run p ops) feed alert))
             = circuit_breaker_active (run p ops))"
proof -
  from run_suspended [OF assms]
  have a: "feed \<in> circuit_breaker_active (run p ops)"
    and h: "same_history (detector p) (detector (run p ops)) feed" by simp_all
  have b: "handle_price_update env (run p ops) now data = (None, run p ops)
           \<and> process_message env (run p ops) now
                \<lparr>msg_channel = ''price:update'', msg_data = Some data\<rparr> = run p ops"
    if "feed_name_of data = feed" for env now data
    using that a by (simp add: handle_price_update_suspended process_message_def)
  have c: "circuit_breaker_active (snd (process_detection env (run p ops) now data det))
             = circuit_breaker_active (run p ops)"
    if "feed_name_of data = feed" for env now data det
    using that a process_detection_breakers [of env "run p ops" now data det]
    by (auto simp add: insert_absorb)
  have d: "circuit_breaker_active (snd (activate_circuit_breaker env (run p ops) feed alert))
             = circuit_breaker_active (run p ops)" for env alert
    using a by (simp add: activate_circuit_breaker_fields insert_absorb)
  from a h b c d show ?thesis by blast
qed

text \<open>
  Instance of C4: the breaker of ETH/USD is active; a slow price update of ETH/USD, an
  external anomaly of ETH/USD and the deactivation of BTC/USD follow. The breaker of
  ETH/USD is still active and the detector still holds the one price 2000 it had.
\<close>

theorem circuit_breaker_holds_until_deactivated_witness:
  "\<forall>h fmt.
     ''ETH/USD'' \<in> circuit_breaker_active (suspended_pipeline h fmt)
     \<and> Deactivate ''ETH/USD'' \<notin> snd ` snd ` set (later_operations h fmt)
     \<and> ''ETH/USD'' \<in> circuit_breaker_active
          (run (suspended_pipeline h fmt) (later_operations h fmt))
     \<and> price_buffer (detector (run (suspended_pipeline h fmt) (later_operations h fmt)))
          ''ETH/USD'' = Some [2000]"
proof (intro allI)
  fix h fmt
  let ?p = "suspended_pipeline h fmt" and ?ops = "later_operations h fmt"
  have a: "''ETH/USD'' \<in> circuit_breaker_active ?p"
    by (simp add: example_defs detector_defs pipeline_defs Let_def)
  have b: "Deactivate ''ETH/USD'' \<notin> snd ` snd ` set ?ops"
    by (simp add: later_operations_def)
  have c: "price_buffer (detector ?p) ''ETH/USD'' = Some [2000]"
    by (simp add: example_defs detector_defs pipeline_defs Let_def)
  from circuit_breaker_holds_until_deactivated [OF a b]
  have "''ETH/USD'' \<in> circuit_breaker_active (run ?p ?ops)"
    and "same_history (detector ?p) (detector (run ?p ?ops)) ''ETH/USD''"
    by blast+
  with a b c show "''ETH/USD'' \<in> circuit_breaker_active ?p
     \<and> Deactivate ''ETH/USD'' \<notin> snd ` snd ` set ?ops
     \<and> ''ETH/USD'' \<in> circuit_breaker_active (run ?p ?ops)
     \<and> price_buffer (detector (run ?p ?ops)) ''ETH/USD'' = Some [2000]"
    by (simp add: same_history_def)
qed

section \<open>Properties of the notifier\<close>

text \<open>
  C9 as stated fails: the status 201 is a 2xx status, and \<open>_send_webhook\<close>, which
  compares the status with 200, records false for it.
\<close>

theorem webhook_201_recorded_false:
  "(200::nat) \<le> 201 \<and> (201::nat) \<le> 299
   \<and> answers 201 (webhook_url (notifier_config (webhook_notifier 201)))
        (Alert_json sample_alert) = Inr 201
   \<and> \<not> send_webhook (webhook_notifier 201) sample_alert"
  by (simp add: send_webhook_def webhook_notifier_def answers_def)

text \<open>
  C9, amended. \<open>_send_webhook\<close> returns true if and only if there is a session and
  its POST of the alert to the webhook URL returns the status 200; on every other
  status and on every exception it returns false, and it never raises. When a webhook
  URL is configured, this value is the entry of the webhook channel in the result of
  \<open>notify_all_channels\<close>.
\<close>

theorem webhook_true_iff_status_200:
  "(send_webhook n alert \<longleftrightarrow>
      (\<exists>post. session n = Some post
         \<and> post (webhook_url (notifier_config n)) (Alert_json alert) = Inr 200))
   \<and> (truthy (webhook_url (notifier_config n)) \<longrightarrow>
        map_of (notify_all_channels env n alert now) ''webhook''
          = Some (send_webhook n alert))"
  by (auto simp add: send_webhook_def notify_all_channels_def
      split: option.split sum.split)

text \<open>Instance of C9 amended: an endpoint that answers 200.\<close>

theorem webhook_true_iff_status_200_witness:
  "\<forall>env now.
     truthy (webhook_url (notifier_config (webhook_notifier 200)))
     \<and> send_webhook (webhook_notifier 200) sample_alert
     \<and> map_of (notify_all_channels env (webhook_notifier 200) sample_alert now) ''webhook''
         = Some True"
proof (intro allI)
  fix env now
  have t: "truthy (webhook_url (notifier_config (webhook_notifier 200)))"
    by (simp add: webhook_notifier_def truthy_def)
  have p: "\<exists>post. session (webhook_notifier 200) = Some post
      \<and> post (webhook_url (notifier_config (webhook_notifier 200))) (Alert_json sample_alert)
          = Inr 200"
    by (simp add: webhook_notifier_def answers_def)
  from webhook_true_iff_status_200 [of "webhook_notifier 200" sample_alert env now] t p
  show "truthy (webhook_url (notifier_config (webhook_notifier 200)))
     \<and> send_webhook (webhook_notifier 200) sample_alert
     \<and> map_of (notify_all_channels env (webhook_notifier 200) sample_alert now) ''webhook''
         = Some True"
    by simp
qed

section \<open>Externally detected anomalies\<close>



end
